theory Spec2Isabelle
  imports Main "HOL-Library.Multiset" "HOL-Library.List_Lexorder" "HOL-Library.Char_ord"
begin

section \<open>The desktop shell: gui/app/main.js\<close>

subsection \<open>JavaScript strings and the helpers of the module\<close>

text \<open>
  A JavaScript string is a \<open>string\<close>, holding the UTF-8 bytes the source file holds; a value
  that may be \<open>undefined\<close> is a \<open>string option\<close>. The three typographic characters of the
  tray labels are spelled out as their bytes.
\<close>

definition truthy :: "string option \<Rightarrow> bool" where
  "truthy v = (case v of None \<Rightarrow> False | Some s \<Rightarrow> s \<noteq> [])"

definition starts_with :: "string \<Rightarrow> string \<Rightarrow> bool" where
  "starts_with p s = (take (length p) s = p)"

definition ends_with :: "string \<Rightarrow> string \<Rightarrow> bool" where
  "ends_with p s = starts_with (rev p) (rev s)"

fun contains :: "string \<Rightarrow> string \<Rightarrow> bool" where
  "contains p [] = (p = [])"
| "contains p (c # cs) = (starts_with p (c # cs) \<or> contains p cs)"

text \<open>The part of a string that \<open>.*\<close> can cross: up to the first line terminator.\<close>

fun first_line :: "string \<Rightarrow> string" where
  "first_line [] = []"
| "first_line (c # cs) =
     (if c = CHR 0x0A \<or> c = CHR 0x0D
         \<or> starts_with [CHR 0xE2, CHR 0x80, CHR 0xA8] (c # cs)
         \<or> starts_with [CHR 0xE2, CHR 0x80, CHR 0xA9] (c # cs)
      then [] else c # first_line cs)"

definition double_high_quote :: string where
  "double_high_quote = [CHR 0xE2, CHR 0x80, CHR 0x9F]"

definition left_double_quote :: string where
  "left_double_quote = [CHR 0xE2, CHR 0x80, CHR 0x9C]"

definition ellipsis :: string where
  "ellipsis = [CHR 0xE2, CHR 0x80, CHR 0xA6]"

text \<open>\<open>path.basename\<close> of Node: the last segment, trailing separators dropped; on win32
  both slashes separate and a drive prefix is skipped.\<close>

definition is_sep :: "string \<Rightarrow> char \<Rightarrow> bool" where
  "is_sep plat c = (c = CHR ''/'' \<or> (plat = ''win32'' \<and> c = CHR 0x5C))"

definition is_drive_letter :: "char \<Rightarrow> bool" where
  "is_drive_letter c = (c \<in> set ''abcdefghijklmnopqrstuvwxyzABCDEFGHIJKLMNOPQRSTUVWXYZ'')"

definition basename :: "string \<Rightarrow> string \<Rightarrow> string" where
  "basename plat p =
     (let q = (case p of
                 d # c # r \<Rightarrow>
                   if plat = ''win32'' \<and> is_drive_letter d \<and> c = CHR '':'' then r else p
               | _ \<Rightarrow> p)
      in rev (takeWhile (\<lambda>c. \<not> is_sep plat c) (dropWhile (is_sep plat) (rev q))))"

subsection \<open>Module state\<close>

record last_file =
  filename :: string
  path :: string
  icon :: string
  size_file :: int
  updated :: int

text \<open>The \<open>info\<close> object a transfer event carries.\<close>

record info =
  info_path :: string
  info_class :: "string option"
  info_mime :: "string option"
  info_size :: "int option"

datatype click =
  no_click | openCozyFolder | goToMyCozy | goToTab string | quit | showWindow | relaunch

datatype menu_item =
  MenuItem (label: "string option") (enabled: bool) (click: click)
| separator

record tray_icon =
  image :: string
  pressedImage :: "string option"
  contextMenu :: "menu_item list"
  toolTip :: "string option"

datatype ipc_arg = Str "string option" | FileArg last_file | BoolArg bool

text \<open>
  What the file at \<open>lastFilesPath\<close> holds: nothing (no file), data that \<open>JSON.parse\<close>
  rejects or that is empty, or the JSON of a list of entries (this module alone writes the
  file, and writes lists).
\<close>

datatype disk_file = missing | unparsable | json "last_file list"

text \<open>
  The module-level variables (\<open>state\<close>, \<open>errorMessage\<close>, \<open>lastFiles\<close>,
  \<open>newReleaseAvailable\<close>, \<open>mainWindow\<close>, \<open>tray\<close>, \<open>diskTimeout\<close>) with the process
  constants the functions read (\<open>process.platform\<close>, \<open>__dirname\<close>, \<open>app.translations\<close>) and
  what they write to: the messages sent to the main window (oldest first), the desktop
  notifications, the console, and the last-files file. \<open>fs.readFile\<close> and
  \<open>fs.writeFile\<close> return at once and call back in a later turn of the event loop:
  \<open>lastFilesRead\<close> says that the read of the file is in flight, \<open>lastFilesWrites\<close> lists
  the writes in flight, oldest first, each with the data it writes and whether another write
  of the file has been in flight at any time since it started.
\<close>

record gui =
  platform :: string
  dirname :: string
  app_translations :: "string \<Rightarrow> string option"
  mainWindow :: bool
  tray :: tray_icon
  state :: string
  errorMessage :: "string option"
  lastFiles :: "last_file list"
  newReleaseAvailable :: bool
  diskTimeout :: bool
  sent :: "(string \<times> ipc_arg list) list"
  notifications :: "string option list"
  console :: "string list"
  lastFilesFile :: disk_file
  lastFilesRead :: bool
  lastFilesWrites :: "(last_file list \<times> bool) list"

subsection \<open>translate, sendToMainWindow, sendErrorToMainWindow\<close>

definition translate :: "gui \<Rightarrow> string \<Rightarrow> string" where
  "translate g key =
     (let fallback = (if CHR '' '' \<in> set key
                      then tl (dropWhile (\<lambda>c. c \<noteq> CHR '' '') key) else key)
      in case app_translations g key of
           None \<Rightarrow> fallback
         | Some t \<Rightarrow> if t = [] then fallback else t)"

definition sendToMainWindow :: "string \<Rightarrow> ipc_arg list \<Rightarrow> gui \<Rightarrow> gui" where
  "sendToMainWindow channel args g =
     (if mainWindow g then g\<lparr>sent := sent g @ [(channel, args)]\<rparr> else g)"

definition notify :: "string option \<Rightarrow> gui \<Rightarrow> gui" where
  "notify body g = g\<lparr>notifications := notifications g @ [body]\<rparr>"

definition sendErrorToMainWindow :: "string option \<Rightarrow> gui \<Rightarrow> gui" where
  "sendErrorToMainWindow msg g =
     (if msg = Some ''Client has been revoked'' then
        notify (Some (translate g
            ''Revoked It looks like you have revoked your client from your Cozy''))
          (sendToMainWindow ''revoked'' [] g)
      else if msg = Some ''Cozy is full'' \<or> msg = Some ''No more disk space'' then
        (let m = translate g (''Error '' @ the msg)
         in notify (Some m) (sendToMainWindow ''sync-error'' [Str (Some m)] g))
      else notify msg (sendToMainWindow ''sync-error'' [Str msg] g))"

subsection \<open>setTrayIcon, updateState\<close>

definition setTrayIcon :: "string \<Rightarrow> gui \<Rightarrow> gui" where
  "setTrayIcon st g =
     (if platform g = ''darwin'' then
        g\<lparr>tray := (tray g)\<lparr>
            image := dirname g @ ''/images/tray-icon-osx/'' @ st @ ''Template.png'',
            pressedImage :=
              Some (dirname g @ ''/images/tray-icon-osx/'' @ st @ ''Highlight.png'')\<rparr>\<rparr>
      else
        g\<lparr>tray := (tray g)\<lparr>
            image := dirname g @ ''/images/tray-icon-linux/'' @ st @ ''.png''\<rparr>\<rparr>)"

text \<open>\<open>menu.insert(pos, item)\<close>\<close>

definition menu_insert :: "nat \<Rightarrow> menu_item \<Rightarrow> menu_item list \<Rightarrow> menu_item list" where
  "menu_insert pos item menu = take pos menu @ [item] @ drop pos menu"

definition trayMenu :: "gui \<Rightarrow> string option \<Rightarrow> menu_item list" where
  "trayMenu g lbl =
     (let menu0 =
        [ MenuItem lbl False no_click,
          separator,
          MenuItem (Some (translate g ''Tray Open Cozy folder'')) True openCozyFolder,
          MenuItem (Some (translate g ''Tray Go to my Cozy'')) True goToMyCozy,
          separator,
          MenuItem (Some (translate g ''Tray Help'')) True (goToTab ''help''),
          MenuItem (Some (translate g ''Tray Settings'')) True (goToTab ''settings''),
          separator,
          MenuItem (Some (translate g ''Tray Quit application'')) True quit ];
        menu1 = (if \<not> mainWindow g
                 then menu_insert 2
                        (MenuItem (Some (translate g ''Tray Show application'')) True showWindow)
                        menu0
                 else menu0);
        menu2 = (if state g = ''error''
                 then menu_insert 2
                        (MenuItem (Some (translate g ''Tray Relaunch synchronization'')) True
                           relaunch)
                        menu1
                 else menu1)
      in if newReleaseAvailable g
         then menu_insert 2
                (MenuItem (Some (translate g ''Tray A new release is available'')) True
                   (goToTab ''settings''))
                menu2
         else menu2)"

text \<open>
  \<open>updateState\<close>: the guard, the assignment of \<open>state\<close>, the chain that picks the icon and
  the label (with \<open>errorMessage\<close> assigned in its first branch), then the menu and the tool tip.
  The tray exists: the function runs after the \<open>ready\<close> event has created it.
\<close>

definition updateState :: "string \<Rightarrow> string option \<Rightarrow> gui \<Rightarrow> gui" where
  "updateState newState fname g =
     (if state g = ''error'' \<and> newState = ''offline'' then g
      else
        let g1 = g\<lparr>state := newState\<rparr>;
            (g2, statusLabel) =
              (if state g1 = ''error'' then
                 ((setTrayIcon ''error'' g1)\<lparr>errorMessage := fname\<rparr>, fname)
               else if truthy fname then
                 (setTrayIcon ''sync'' g1,
                  Some (translate g1 ''Tray Syncing'' @ '' '' @ double_high_quote @ the fname
                        @ left_double_quote))
               else if state g1 = ''up-to-date'' \<or> state g1 = ''online'' then
                 (setTrayIcon ''idle'' g1, Some (translate g1 ''Tray Your cozy is up to date''))
               else if state g1 = ''syncing'' then
                 (setTrayIcon ''sync'' g1, Some (translate g1 ''Tray Syncing'' @ ellipsis))
               else if state g1 = ''offline'' then
                 (setTrayIcon ''pause'' g1, Some (translate g1 ''Tray Offline''))
               else (g1, Some []))
        in g2\<lparr>tray := (tray g2)\<lparr>contextMenu := trayMenu g2 statusLabel,
                                  toolTip := statusLabel\<rparr>\<rparr>)"

subsection \<open>selectIcon, the last-files list, addFile and removeFile\<close>

definition selectIcon :: "info \<Rightarrow> string" where
  "selectIcon i =
     (if info_class i = Some ''image'' \<or> info_class i = Some ''video'' then the (info_class i)
      else if info_class i = Some ''music'' then ''audio''
      else if info_mime i = Some ''application/pdf'' then ''pdf''
      else if info_mime i = Some ''application/x-binary'' then ''binary''
      else if \<not> truthy (info_mime i) then ''file''
      else
        let m = the (info_mime i) in
        if list_ex (\<lambda>suf. ends_with suf m)
             [x # y @ ''zip'' @ z. x \<leftarrow> ''/-'', y \<leftarrow> [[], ''b'', ''g''], z \<leftarrow> [[], ''2'']]
        then ''archive''
        else if list_ex (\<lambda>p. starts_with p m)
             [''text/html'', ''text/xml'', ''application/html'', ''application/xml'']
        then ''code''
        else if starts_with ''text/'' m then ''text''
        else if starts_with ''application/'' m
                \<and> contains ''rtf'' (first_line (drop (length ''application/'') m))
        then ''text''
        else if contains ''word'' m then ''text''
        else if contains ''powerpoint'' m then ''presentation''
        else if contains ''excel'' m then ''spreadsheet''
        else ''file'')"

text \<open>
  \<open>loadLastFiles\<close> starts the read and returns. Its callback, with what the file holds
  when the read completes, assigns the parsed list, and keeps the list when the file cannot
  be read, is empty or does not parse.
\<close>

definition loadLastFiles :: "gui \<Rightarrow> gui" where
  "loadLastFiles g = g\<lparr>lastFilesRead := True\<rparr>"

definition loadLastFiles_callback :: "gui \<Rightarrow> gui" where
  "loadLastFiles_callback g =
     (if lastFilesRead g then
        (case lastFilesFile g of
           json fs \<Rightarrow> g\<lparr>lastFiles := fs, lastFilesRead := False\<rparr>
         | _ \<Rightarrow> g\<lparr>lastFilesRead := False\<rparr>)
      else g)"

text \<open>
  \<open>persistLastFiles\<close> serializes the list, starts the write and returns; nothing waits
  for the write, so a second call can start another one while the first is in flight, as
  the two calls of one \<open>transfer-move\<close> event do.
\<close>

definition persistLastFiles :: "gui \<Rightarrow> gui" where
  "persistLastFiles g =
     g\<lparr>lastFilesWrites :=
         map (\<lambda>(data, raced). (data, True)) (lastFilesWrites g)
         @ [(lastFiles g, lastFilesWrites g \<noteq> [])]\<rparr>"

text \<open>
  The callback of the write in flight at position \<open>k\<close>, in a later turn. A write that
  succeeded with no other write in flight beside it has left its data in the file. A write
  that failed (the callback logs the error) or that ran beside another one (both truncate
  the file and write from its start) has left what the argument \<open>found\<close> says: the model
  does not decide it.
\<close>

definition persistLastFiles_callback :: "nat \<Rightarrow> bool \<Rightarrow> disk_file \<Rightarrow> gui \<Rightarrow> gui" where
  "persistLastFiles_callback k failed found g =
     (if k < length (lastFilesWrites g) then
        g\<lparr>lastFilesWrites := take k (lastFilesWrites g) @ drop (Suc k) (lastFilesWrites g),
          console := (if failed then console g @ [''write error''] else console g),
          lastFilesFile :=
            (if \<not> failed \<and> \<not> snd (lastFilesWrites g ! k)
             then json (fst (lastFilesWrites g ! k)) else found)\<rparr>
      else g)"

text \<open>\<open>xs.slice(-n)\<close>: the last \<open>n\<close> elements, all of them when there are fewer.\<close>

definition slice_last :: "nat \<Rightarrow> 'a list \<Rightarrow> 'a list" where
  "slice_last n xs = drop (length xs - n) xs"

text \<open>\<open>addFile\<close>, with the clock reading \<open>+new Date()\<close> as the argument \<open>now\<close>.\<close>

definition addFile :: "info \<Rightarrow> int \<Rightarrow> gui \<Rightarrow> gui" where
  "addFile i now g =
     (let file = \<lparr> filename = basename (platform g) (info_path i),
                   path = info_path i,
                   icon = selectIcon i,
                   size_file = (case info_size i of None \<Rightarrow> 0 | Some n \<Rightarrow> n),
                   updated = now \<rparr>;
          g1 = updateState ''syncing'' (Some (filename file)) g;
          g2 = g1\<lparr>lastFiles := lastFiles g1 @ [file]\<rparr>;
          g3 = g2\<lparr>lastFiles := slice_last 250 (lastFiles g2)\<rparr>;
          g4 = sendToMainWindow ''transfer'' [FileArg file] g3
      in persistLastFiles g4)"

definition removeFile :: "info \<Rightarrow> gui \<Rightarrow> gui" where
  "removeFile i g =
     (let file = \<lparr> filename = basename (platform g) (info_path i),
                   path = info_path i,
                   icon = [],
                   size_file = 0,
                   updated = 0 \<rparr>;
          g1 = g\<lparr>lastFiles := filter (\<lambda>f. path f \<noteq> path file) (lastFiles g)\<rparr>;
          g2 = sendToMainWindow ''delete-file'' [FileArg file] g1
      in persistLastFiles g2)"

subsection \<open>sendDiskUsage, startSync and the handlers it registers\<close>

text \<open>
  \<open>sendDiskUsage\<close> clears the timer, and with a window arms it again and asks the core for
  the disk usage; the answer (a \<open>disk-space\<close> message) comes in a later turn of the event
  loop, so within the calling function nothing is sent.
\<close>

definition sendDiskUsage :: "gui \<Rightarrow> gui" where
  "sendDiskUsage g = g\<lparr>diskTimeout := mainWindow g\<rparr>"

text \<open>The \<open>for\<close> loop of \<open>startSync\<close> over \<open>lastFiles\<close>.\<close>

fun sendTransfers :: "last_file list \<Rightarrow> gui \<Rightarrow> gui" where
  "sendTransfers [] g = g"
| "sendTransfers (f # fs) g = sendTransfers fs (sendToMainWindow ''transfer'' [FileArg f] g)"

text \<open>
  \<open>startSync\<close>: \<open>running\<close> is \<open>desktop.sync\<close> (a synchronization was started before),
  \<open>cozyUrl\<close> and \<open>deviceName\<close> come from \<open>desktop.config\<close>. The handlers registered in the
  second branch are the functions below; the promise of \<open>desktop.synchronize\<close> settles in a
  later turn, with \<open>synchronize_stopped\<close> or \<open>synchronize_failed\<close>.
\<close>

definition startSync :: "bool \<Rightarrow> bool \<Rightarrow> string option \<Rightarrow> string option \<Rightarrow> gui \<Rightarrow> gui" where
  "startSync force running cozyUrl deviceName g =
     (let g1 = sendToMainWindow ''synchronization'' [Str cozyUrl, Str deviceName] g;
          g2 = sendTransfers (lastFiles g1) g1
      in if running \<and> \<not> force then
           sendDiskUsage
             (if state g2 = ''up-to-date'' \<or> state g2 = ''online'' then
                sendToMainWindow ''up-to-date'' [] g2
              else if state g2 = ''offline'' then sendToMainWindow ''offline'' [] g2
              else if state g2 = ''error'' then sendErrorToMainWindow (errorMessage g2) g2
              else g2)
         else sendDiskUsage (updateState ''syncing'' None g2))"

definition on_up_to_date :: "gui \<Rightarrow> gui" where
  "on_up_to_date g = sendToMainWindow ''up-to-date'' [] (updateState ''up-to-date'' None g)"

definition on_online :: "gui \<Rightarrow> gui" where
  "on_online g = sendToMainWindow ''up-to-date'' [] (updateState ''online'' None g)"

definition on_offline :: "gui \<Rightarrow> gui" where
  "on_offline g = sendToMainWindow ''offline'' [] (updateState ''offline'' None g)"

definition on_transfer_move :: "info \<Rightarrow> info \<Rightarrow> int \<Rightarrow> gui \<Rightarrow> gui" where
  "on_transfer_move i old now g = removeFile old (addFile i now g)"

definition synchronize_stopped :: "gui \<Rightarrow> gui" where
  "synchronize_stopped g = sendErrorToMainWindow (Some ''stopped'') g"

text \<open>The \<open>catch\<close> of \<open>desktop.synchronize\<close>, with \<open>err.message\<close> as its argument.\<close>

definition synchronize_failed :: "string option \<Rightarrow> gui \<Rightarrow> gui" where
  "synchronize_failed message g =
     (let g1 = g\<lparr>console := console g @ [''error'']\<rparr>;
          g2 = updateState ''error'' message g1;
          g3 = sendDiskUsage g2
      in sendErrorToMainWindow message g3)"

subsection \<open>Start of the process\<close>

text \<open>
  The module's initial values, then \<open>loadLastFiles()\<close>, then the \<open>ready\<close> handler: the
  window is created unless the process was started with \<open>--hidden\<close>, the tray gets the idle
  icon and its first menu.
\<close>

definition initial :: "string \<Rightarrow> string \<Rightarrow> (string \<Rightarrow> string option) \<Rightarrow> disk_file \<Rightarrow> gui" where
  "initial plat dir tr disk =
     \<lparr> platform = plat, dirname = dir, app_translations = tr, mainWindow = False,
       tray = \<lparr> image = [], pressedImage = None, contextMenu = [], toolTip = None \<rparr>,
       state = ''not-configured'', errorMessage = Some [], lastFiles = [],
       newReleaseAvailable = False, diskTimeout = False, sent = [], notifications = [],
       console = [], lastFilesFile = disk, lastFilesRead = False, lastFilesWrites = [] \<rparr>"

definition on_ready :: "bool \<Rightarrow> gui \<Rightarrow> gui" where
  "on_ready hidden g =
     (let g1 = g\<lparr>mainWindow := \<not> hidden\<rparr>;
          g2 = g1\<lparr>tray := (tray g1)\<lparr>image := dirname g1 @ ''/images/tray-icon-linux/idle.png''\<rparr>\<rparr>;
          g3 = setTrayIcon ''idle'' g2
      in g3\<lparr>tray := (tray g3)\<lparr>contextMenu :=
           [ MenuItem (Some (translate g3 ''Tray Show application'')) True showWindow,
             MenuItem (Some (translate g3 ''Tray Quit application'')) True quit ]\<rparr>\<rparr>)"

text \<open>
  A restart: a new process over the file the old one left, up to the end of its \<open>ready\<close>
  handler. The callback of the read and \<open>startSync\<close> (which \<open>appLoaded\<close> schedules)
  come in later turns, in an order the code does not fix.
\<close>

definition restart :: "bool \<Rightarrow> gui \<Rightarrow> gui" where
  "restart hidden g =
     on_ready hidden
       (loadLastFiles
          (initial (platform g) (dirname g) (app_translations g) (lastFilesFile g)))"

text \<open>The files of the \<open>transfer\<close> messages the window received, oldest first.\<close>

definition transfers :: "gui \<Rightarrow> last_file list" where
  "transfers g = concat (map (\<lambda>(ch, args).
       case args of [FileArg f] \<Rightarrow> (if ch = ''transfer'' then [f] else []) | _ \<Rightarrow> []) (sent g))"

subsection \<open>Inputs of the examples\<close>

text \<open>The entry \<open>addFile\<close> builds from an event and the clock.\<close>

definition new_file :: "info \<Rightarrow> int \<Rightarrow> gui \<Rightarrow> last_file" where
  "new_file i now g = \<lparr> filename = basename (platform g) (info_path i),
                   path = info_path i,
                   icon = selectIcon i,
                   size_file = (case info_size i of None \<Rightarrow> 0 | Some n \<Rightarrow> n),
                   updated = now \<rparr>"

text \<open>A process started on Linux with its window open, and a text file's event.\<close>

definition started :: "(string \<Rightarrow> string option) \<Rightarrow> gui" where
  "started tr = on_ready False (initial ''linux'' ''/app'' tr missing)"

definition text_info :: "string \<Rightarrow> info" where
  "text_info p = \<lparr> info_path = p, info_class = Some ''text'', info_mime = Some ''text/plain'',
                   info_size = Some 3 \<rparr>"

definition french :: "string \<Rightarrow> string option" where
  "french = [''Error Cozy is full'' \<mapsto> ''Votre Cozy est plein'']"

section \<open>The test helper ContextDir (unnamed/part_000)\<close>

subsection \<open>Node's path module: sep, normalize and join\<close>

text \<open>
  The helper calls \<open>path.join\<close> and reads \<open>path.sep\<close>, which depend on the platform
  (\<open>process.platform\<close>, the argument \<open>plat\<close>): on \<open>win32\<close> the separator written is the
  backslash and both slashes are read as separators, elsewhere there is the forward slash
  alone (\<open>is_sep\<close> above). \<open>path.sep.length\<close> is 1.
\<close>

definition path_sep :: "string \<Rightarrow> char" where
  "path_sep plat = (if plat = ''win32'' then CHR 0x5C else CHR ''/'')"

text \<open>The pieces of a path between its separators, the empty ones too.\<close>

fun segments :: "(char \<Rightarrow> bool) \<Rightarrow> string \<Rightarrow> string list" where
  "segments isPathSeparator [] = [[]]"
| "segments isPathSeparator (c # cs) =
     (if isPathSeparator c then [] # segments isPathSeparator cs
      else (c # hd (segments isPathSeparator cs)) # tl (segments isPathSeparator cs))"

text \<open>
  \<open>normalizeString\<close>: an empty segment and \<open>.\<close> are dropped; \<open>..\<close> takes back the segment
  before it, unless there is none or it is \<open>..\<close> itself, and then stays when the path may
  climb above its start (\<open>allowAboveRoot\<close>) and is dropped when not; the segments kept are
  joined with the separator.
\<close>

fun resolve :: "bool \<Rightarrow> string list \<Rightarrow> string list \<Rightarrow> string list" where
  "resolve allowAboveRoot res [] = res"
| "resolve allowAboveRoot res (s # ss) =
     (if s = [] \<or> s = ''.'' then resolve allowAboveRoot res ss
      else if s = ''..'' then
        (if res \<noteq> [] \<and> last res \<noteq> ''..'' then resolve allowAboveRoot (butlast res) ss
         else if allowAboveRoot then resolve allowAboveRoot (res @ [''..'']) ss
         else resolve allowAboveRoot res ss)
      else resolve allowAboveRoot (res @ [s]) ss)"

fun join_with :: "char \<Rightarrow> string list \<Rightarrow> string" where
  "join_with sep [] = []"
| "join_with sep [s] = s"
| "join_with sep (s # t # ss) = s @ sep # join_with sep (t # ss)"

definition normalizeString :: "string \<Rightarrow> bool \<Rightarrow> char \<Rightarrow> (char \<Rightarrow> bool) \<Rightarrow> string" where
  "normalizeString p allowAboveRoot sep isPathSeparator =
     join_with sep (resolve allowAboveRoot [] (segments isPathSeparator p))"

text \<open>\<open>path.posix.normalize\<close> and \<open>path.posix.join\<close> (of two arguments).\<close>

definition normalize_posix :: "string \<Rightarrow> string" where
  "normalize_posix p =
     (if p = [] then ''.''
      else
        let isAbsolute = (hd p = CHR ''/'');
            trailingSeparator = (last p = CHR ''/'');
            p1 = normalizeString p (\<not> isAbsolute) (CHR ''/'') (is_sep ''posix'');
            p2 = (if p1 = [] \<and> \<not> isAbsolute then ''.'' else p1);
            p3 = (if p2 \<noteq> [] \<and> trailingSeparator then p2 @ ''/'' else p2)
        in if isAbsolute then CHR ''/'' # p3 else p3)"

definition join_posix :: "string \<Rightarrow> string \<Rightarrow> string" where
  "join_posix a b =
     (let joined = (if a = [] then b else if b = [] then a else a @ CHR ''/'' # b)
      in if joined = [] then ''.'' else normalize_posix joined)"

text \<open>
  \<open>path.win32.normalize\<close>. First the root of the path: a UNC root (two separators, a
  server, separators, a share), a single separator, or a drive with its colon, followed or
  not by a separator. \<open>unc\<close> reads what follows the two leading separators: the server, the
  share and the rest, when there are a server and the start of a share.
\<close>

definition unc :: "string \<Rightarrow> (string \<times> string \<times> string) option" where
  "unc r =
     (let firstPart = takeWhile (\<lambda>c. \<not> is_sep ''win32'' c) r;
          r1 = dropWhile (\<lambda>c. \<not> is_sep ''win32'' c) r;
          r2 = dropWhile (is_sep ''win32'') r1
      in if firstPart \<noteq> [] \<and> r1 \<noteq> [] \<and> r2 \<noteq> []
         then Some (firstPart, takeWhile (\<lambda>c. \<not> is_sep ''win32'' c) r2,
                    dropWhile (\<lambda>c. \<not> is_sep ''win32'' c) r2)
         else None)"

text \<open>The device, whether the path is absolute, and the path from \<open>rootEnd\<close> on.\<close>

definition win32_root :: "string \<Rightarrow> string \<times> bool \<times> string" where
  "win32_root p =
     (case p of
        c0 # c1 # r \<Rightarrow>
          if is_sep ''win32'' c0 then
            (if is_sep ''win32'' c1 then
               (case unc r of
                  Some (firstPart, share, rest) \<Rightarrow>
                    ([CHR 0x5C, CHR 0x5C] @ firstPart @ CHR 0x5C # share, True, rest)
                | None \<Rightarrow> ([], True, p))
             else ([], True, c1 # r))
          else if is_drive_letter c0 \<and> c1 = CHR '':'' then
            (case r of
               [] \<Rightarrow> ([c0, c1], False, [])
             | c2 # r' \<Rightarrow> if is_sep ''win32'' c2 then ([c0, c1], True, r')
                          else ([c0, c1], False, r))
          else ([], False, p)
      | _ \<Rightarrow> ([], False, p))"

definition normalize_win32 :: "string \<Rightarrow> string" where
  "normalize_win32 p =
     (if p = [] then ''.''
      else if length p = 1 \<and> is_sep ''win32'' (hd p) then [CHR 0x5C]
      else if (case p of
                 c0 # c1 # r \<Rightarrow> is_sep ''win32'' c0 \<and> is_sep ''win32'' c1
                   \<and> (case unc r of Some (firstPart, share, rest) \<Rightarrow> rest = [] | None \<Rightarrow> False)
               | _ \<Rightarrow> False)
      then (case unc (drop 2 p) of
              Some (firstPart, share, rest) \<Rightarrow>
                [CHR 0x5C, CHR 0x5C] @ firstPart @ CHR 0x5C # share @ [CHR 0x5C]
            | None \<Rightarrow> p)
      else
        (case win32_root p of
           (device, isAbsolute, rest) \<Rightarrow>
             let t1 = normalizeString rest (\<not> isAbsolute) (CHR 0x5C) (is_sep ''win32'');
                 t2 = (if t1 = [] \<and> \<not> isAbsolute then ''.'' else t1);
                 t3 = (if t2 \<noteq> [] \<and> is_sep ''win32'' (last p) then t2 @ [CHR 0x5C] else t2)
             in device @ (if isAbsolute then [CHR 0x5C] else []) @ t3))"

text \<open>
  \<open>path.win32.join\<close> (of two arguments): the arguments joined with a backslash; leading
  separators, two or more, are replaced by one unless the first argument starts like a UNC
  path (two separators and then something else); then \<open>normalize\<close>.
\<close>

definition join_win32 :: "string \<Rightarrow> string \<Rightarrow> string" where
  "join_win32 a b =
     (let joined = (if a = [] then b else if b = [] then a else a @ CHR 0x5C # b);
          firstPart = (if a = [] then b else a);
          needsReplace =
            \<not> (length (takeWhile (is_sep ''win32'') firstPart) = 2 \<and> 2 < length firstPart);
          slashCount = length (takeWhile (is_sep ''win32'') joined)
      in if joined = [] then ''.''
         else normalize_win32
                (if needsReplace \<and> 2 \<le> slashCount then CHR 0x5C # drop slashCount joined
                 else joined))"


definition path_join :: "string \<Rightarrow> string \<Rightarrow> string \<Rightarrow> string" where
  "path_join plat a b = (if plat = ''win32'' then join_win32 a b else join_posix a b)"

subsection \<open>The directory tree and the helper's path functions\<close>

text \<open>
  The file system below the root is a tree: an entry is a file (anything \<open>stat\<close> does not
  report as a directory), a directory with its entries in the order \<open>readdir\<close> lists them,
  or a directory that cannot be read.
\<close>

datatype fsnode = File | Dir "(string \<times> fsnode) list" | NoAccess

datatype fs_error = ENOTDIR string | EACCES string

text \<open>\<open>localPath.split(path.sep).join(path.posix.sep)\<close>, for a separator of one character.\<close>

definition posixifyPath :: "char \<Rightarrow> string \<Rightarrow> string" where
  "posixifyPath sep localPath = map (\<lambda>c. if c = sep then CHR ''/'' else c) localPath"

text \<open>\<open>abspath.slice(this.root.length + path.sep.length)\<close>, made POSIX.\<close>

definition relpath :: "string \<Rightarrow> string \<Rightarrow> string \<Rightarrow> string" where
  "relpath plat root abspath = posixifyPath (path_sep plat) (drop (length root + 1) abspath)"

definition isDirectory :: "fsnode \<Rightarrow> bool" where
  "isDirectory node = (node \<noteq> File)"

subsection \<open>ContextDir.tree\<close>

text \<open>
  The \<open>for\<close> loop over the names of one directory. The queue \<open>dirsToRead\<close> holds each
  directory's path together with the node found there, which is what \<open>readdir\<close> of that
  path reads later.
\<close>

fun read_dir ::
  "string \<Rightarrow> string \<Rightarrow> string \<Rightarrow> (string \<times> fsnode) list
     \<Rightarrow> (string \<times> fsnode) list \<times> string list \<Rightarrow> (string \<times> fsnode) list \<times> string list" where
  "read_dir plat root dir [] (dirsToRead, relPaths) = (dirsToRead, relPaths)"
| "read_dir plat root dir ((name, node) # names) (dirsToRead, relPaths) =
     (let absPath = path_join plat dir name;
          relPath = relpath plat root absPath
      in if isDirectory node
         then read_dir plat root dir names
                (dirsToRead @ [(absPath, node)], relPaths @ [relPath @ ''/''])
         else read_dir plat root dir names (dirsToRead, relPaths @ [relPath]))"

text \<open>The measure of the \<open>while\<close> loop: the nodes still to be listed.\<close>

fun node_count :: "fsnode \<Rightarrow> nat" where
  "node_count File = 1"
| "node_count NoAccess = 1"
| "node_count (Dir entries) = Suc (sum_list (map (\<lambda>e. node_count (snd e)) entries))"

definition pending :: "(string \<times> fsnode) list \<Rightarrow> nat" where
  "pending q = sum_list (map (\<lambda>e. node_count (snd e)) q)"

lemma pending_read_dir:
  "pending (fst (read_dir plat root dir es (q, r))) \<le> pending q + pending es"
proof (induction es arbitrary: q r)
  case Nil
  show ?case by simp
next
  case (Cons e es)
  obtain name node where e: "e = (name, node)" by (cases e)
  show ?case
  proof (cases "isDirectory node")
    case True
    have "pending (fst (read_dir plat root dir es
             (q @ [(path_join plat dir name, node)],
              r @ [relpath plat root (path_join plat dir name) @ ''/''])))
          \<le> pending (q @ [(path_join plat dir name, node)]) + pending es"
      by (rule Cons.IH)
    with True show ?thesis by (simp add: e pending_def Let_def)
  next
    case False
    have "pending (fst (read_dir plat root dir es
             (q, r @ [relpath plat root (path_join plat dir name)])))
          \<le> pending q + pending es"
      by (rule Cons.IH)
    with False show ?thesis by (simp add: e pending_def Let_def)
  qed
qed

text \<open>
  The \<open>while (true)\<close> loop: \<open>dirsToRead.shift()\<close>, \<open>break\<close> on an empty queue; a
  \<open>readdir\<close> that fails rejects the promise.
\<close>

function tree_loop ::
  "string \<Rightarrow> string \<Rightarrow> (string \<times> fsnode) list \<Rightarrow> string list \<Rightarrow> fs_error + string list" where
  "tree_loop plat root [] relPaths = Inr relPaths"
| "tree_loop plat root ((dir, File) # dirsToRead) relPaths = Inl (ENOTDIR dir)"
| "tree_loop plat root ((dir, NoAccess) # dirsToRead) relPaths = Inl (EACCES dir)"
| "tree_loop plat root ((dir, Dir entries) # dirsToRead) relPaths =
     (case read_dir plat root dir entries (dirsToRead, relPaths) of
        (q, r) \<Rightarrow> tree_loop plat root q r)"
  by pat_completeness auto
termination
proof (relation "measure (\<lambda>(plat, root, q, r). pending q)", goal_cases)
  case 1
  show ?case by simp
next
  case (2 plat root dir entries dirsToRead relPaths q r)
  have "pending (fst (read_dir plat root dir entries (dirsToRead, relPaths)))
          \<le> pending dirsToRead + pending entries"
    by (rule pending_read_dir)
  with 2 [symmetric] show ?case by (simp add: pending_def)
qed

text \<open>
  \<open>relPaths.sort(cmp)\<close>: a sort by insertion with the comparator. What the properties below
  use of it, that the result is a permutation ordered by the comparator, holds of every
  sort when the comparator is a total preorder.
\<close>

fun insert_by :: "('a \<Rightarrow> 'a \<Rightarrow> int) \<Rightarrow> 'a \<Rightarrow> 'a list \<Rightarrow> 'a list" where
  "insert_by cmp x [] = [x]"
| "insert_by cmp x (y # ys) = (if cmp x y \<le> 0 then x # y # ys else y # insert_by cmp x ys)"

definition sort_by :: "('a \<Rightarrow> 'a \<Rightarrow> int) \<Rightarrow> 'a list \<Rightarrow> 'a list" where
  "sort_by cmp xs = foldr (insert_by cmp) xs []"

text \<open>
  \<open>tree\<close>, with \<open>localeCompare\<close> and the constant \<open>TMP_DIR_NAME\<close> of core/local/constants
  (not among the sources) as arguments.
\<close>

definition tree ::
  "string \<Rightarrow> (string \<Rightarrow> string \<Rightarrow> int) \<Rightarrow> string \<Rightarrow> string \<Rightarrow> fsnode \<Rightarrow> fs_error + string list" where
  "tree plat localeCompare TMP_DIR_NAME root node =
     (case tree_loop plat root [(root, node)] [] of
        Inl e \<Rightarrow> Inl e
      | Inr relPaths \<Rightarrow>
          Inr (filter (\<lambda>relPath. relPath \<noteq> TMP_DIR_NAME @ ''/'')
                 (sort_by localeCompare relPaths)))"

subsection \<open>The listing the helper is meant to return\<close>









text \<open>A comparator and a tree for the examples.\<close>

definition byte_compare :: "string \<Rightarrow> string \<Rightarrow> int" where
  "byte_compare a b = (if a < b then - 1 else if a = b then 0 else 1)"


text \<open>A file and a directory with a file in it.\<close>

definition small_entries :: "(string \<times> fsnode) list" where
  "small_entries = [(''a'', File), (''bb'', Dir [(''c'', File)])]"

section \<open>The sync core, as the specification describes it\<close>

text \<open>
  The Merger, the metadata store and the Executor (core/merge, core/pouch, core/sync and the
  two sides) are not among the sources: only their integration test
  (test/integration/trash.js), a scenario runner and two scenarios are. The definitions of
  this section are modelled from the words of the specification.
\<close>

subsection \<open>Documents\<close>

datatype side = local_side | remote_side


datatype docType = file_doc | folder_doc

text \<open>
  A metadata document, with the fields the scenario runner's \<open>init\<close> writes that the
  properties below use: \<open>_id\<close>, \<open>path\<close>, \<open>docType\<close>, \<open>ino\<close>, \<open>md5sum\<close>, \<open>sides\<close>, with the
  revision and the \<open>_deleted\<close> flag of the store, and \<open>moveFrom\<close>, the path a document
  in a move had before (section 3 of the spec).
\<close>

record doc =
  doc_id :: string
  doc_path :: string
  docType :: docType
  ino :: "nat option"
  md5sum :: "string option"
  doc_rev :: nat
  sides_local :: nat
  sides_remote :: nat
  moveFrom :: "string option"
  deleted :: bool

text \<open>\<open>q\<close> lies below the folder \<open>folder\<close>.\<close>

definition is_under :: "string \<Rightarrow> string \<Rightarrow> bool" where
  "is_under folder q = (starts_with (folder @ ''/'') q \<and> q \<noteq> folder @ ''/'')"


text \<open>
  Modelled from the spec: the Merger's "bump the side" of the reconciliation table
  (section 4.6): a new revision, which the side that reported the change already matches.
\<close>

definition bump :: "side \<Rightarrow> doc \<Rightarrow> doc" where
  "bump s d =
     (case s of
        local_side \<Rightarrow> d\<lparr>doc_rev := Suc (doc_rev d), sides_local := Suc (doc_rev d)\<rparr>
      | remote_side \<Rightarrow> d\<lparr>doc_rev := Suc (doc_rev d), sides_remote := Suc (doc_rev d)\<rparr>)"

subsection \<open>The metadata store\<close>

datatype pouch_error = status nat

text \<open>
  Modelled from the spec: the metadata store (core/pouch, not among the sources), a list of
  documents in the order of its primary index \<open>by_id\<close> (section 4.3). \<open>put\<close> replaces the
  document of the same id or inserts the new one at its place in the index.
\<close>

fun put :: "doc \<Rightarrow> doc list \<Rightarrow> doc list" where
  "put d [] = [d]"
| "put d (x # xs) =
     (if doc_id x = doc_id d then d # xs
      else if doc_id d < doc_id x then d # x # xs
      else x # put d xs)"


text \<open>
  Modelled from the spec: \<open>get_by_id\<close> of the store (section 4.3; core/pouch is not among
  the sources). A document marked deleted is a document the store holds ("tombstones are
  retained", section 3) and is answered like any other; an id of no document is answered
  with status 404, which is what trash.js expects of \<open>pouch.db.get\<close> for an id that is
  not a document's.
\<close>

definition db_get :: "string \<Rightarrow> doc list \<Rightarrow> pouch_error + doc" where
  "db_get i store =
     (case find (\<lambda>d. doc_id d = i) store of
        None \<Rightarrow> Inl (status 404)
      | Some d \<Rightarrow> Inr d)"



text \<open>
  Modelled from the spec: \<open>tree_under(prefix)\<close> of the store (section 4.3), the live
  documents below a folder, in index order.
\<close>

definition tree_under :: "string \<Rightarrow> doc list \<Rightarrow> doc list" where
  "tree_under prefix store = filter (\<lambda>d. is_under prefix (doc_path d) \<and> \<not> deleted d) store"

subsection \<open>The Merger's trash\<close>

text \<open>
  Modelled from the spec: the row "local trash: set deleted, bump local side" of the
  reconciliation table (section 4.6), the same for a remote trash; core/merge is not among
  the sources.
\<close>

definition mark_deleted :: "side \<Rightarrow> doc \<Rightarrow> doc" where
  "mark_deleted s d = bump s (d\<lparr>deleted := True\<rparr>)"


text \<open>
  Modelled from the spec: the Merger's \<open>trashFolder\<close> (core/merge, not among the sources),
  a recursive folder operation over \<open>tree_under\<close> (section 4.3). "A folder's deletion
  implies all descendants have documents with \<open>deleted=true\<close>" (section 3, invariant 4),
  and the specification "requires emitting" the delete documents of the files below the
  folder too (section 9, open question (a), which says of the source that it sometimes omits
  them): the row "trash" of the table is applied to every live document below the folder,
  file or folder, then to the folder. The documents below go first, in reverse index order,
  so that the invariant holds after each single write.
\<close>

definition trashFolder :: "side \<Rightarrow> string \<Rightarrow> doc list \<Rightarrow> doc list" where
  "trashFolder s p store =
     map (mark_deleted s)
       (rev (tree_under p store)
        @ filter (\<lambda>d. doc_path d = p \<and> docType d = folder_doc \<and> \<not> deleted d) store)"


subsection \<open>The trees of trash.js\<close>

text \<open>
  A document both sides agree on, as the store holds it once the trees that the
  \<open>beforeEach\<close> of trash.js creates are synchronized.
\<close>

definition synced :: "string \<Rightarrow> docType \<Rightarrow> doc" where
  "synced p t = \<lparr> doc_id = p, doc_path = p, docType = t, ino = None, md5sum = None,
                  doc_rev = 2, sides_local = 2, sides_remote = 2, moveFrom = None,
                  deleted = False \<rparr>"



subsection \<open>The Executor's trash\<close>

text \<open>
  The tree of a side: the paths present, a folder with no content, a file with its content.
\<close>

type_synonym side_tree = "(string \<times> string option) list"


text \<open>
  Modelled from the spec: the rename a side performs (section 4.7, \<open>move\<close>), which takes
  what lies below a folder with it: one rewrite of the path prefix (section 9).
\<close>

definition rename_path :: "string \<Rightarrow> string \<Rightarrow> string \<Rightarrow> string" where
  "rename_path old new q =
     (if q = old then new else if is_under old q then new @ drop (length old) q else q)"

definition rename_on :: "string \<Rightarrow> string \<Rightarrow> side_tree \<Rightarrow> side_tree" where
  "rename_on old new t = map (\<lambda>(q, c). (rename_path old new q, c)) t"





subsection \<open>The Executor's ordering\<close>

text \<open>
  A pending operation: what has to be done on the target side for one document, with the
  document's sequence number in the changes feed of the store.
\<close>

datatype op_kind = create_op | move_op | delete_op

record operation =
  op_kind :: op_kind
  op_path :: string
  op_seq :: nat

text \<open>The depth of a path: the number of its segments.\<close>

definition depth :: "string \<Rightarrow> nat" where
  "depth p = Suc (length (filter (\<lambda>c. c = CHR ''/'') p))"

text \<open>
  Modelled from the spec: the ordering of the Executor (section 4.7; core/sync is not among
  the sources): "operations are sorted by path depth ascending for creates/moves (parents
  before children) and descending for deletes (children before parents). Within equal
  depth, stable by document sequence." The operations are put in sequence order, then
  sorted by depth with a stable sort.
\<close>

definition ordered_creates_moves :: "operation list \<Rightarrow> operation list" where
  "ordered_creates_moves batch =
     sort_key (\<lambda>x. depth (op_path x))
       (sort_key op_seq (filter (\<lambda>x. op_kind x \<noteq> delete_op) batch))"

definition ordered_deletes :: "operation list \<Rightarrow> operation list" where
  "ordered_deletes batch =
     sort_key (\<lambda>x. - int (depth (op_path x)))
       (sort_key op_seq (filter (\<lambda>x. op_kind x = delete_op) batch))"

text \<open>
  The deletions of the three folders of the directory of trash.js, numbered in the order in
  which the test lists their documents, and listed here in another order.
\<close>

definition trash_directory_deletes :: "operation list" where
  "trash_directory_deletes =
     [ \<lparr> op_kind = delete_op, op_path = ''parent/dir'', op_seq = 8 \<rparr>,
       \<lparr> op_kind = delete_op, op_path = ''parent/dir/empty-subdir'', op_seq = 7 \<rparr>,
       \<lparr> op_kind = delete_op, op_path = ''parent/dir/subdir'', op_seq = 6 \<rparr> ]"

subsection \<open>Identifiers, conflict names and the Merger's add\<close>

text \<open>
  Modelled from the spec: the platforms whose file system folds case (section 4.1: "macOS
  HFS+ default, Windows"); core/metadata is not among the sources.
\<close>

definition case_insensitive :: "string \<Rightarrow> bool" where
  "case_insensitive plat = (plat = ''darwin'' \<or> plat = ''win32'')"

text \<open>Lower case, for the letters a string of bytes can tell: the ASCII ones.\<close>

definition lower_char :: "char \<Rightarrow> char" where
  "lower_char c =
     (case map_of (zip ''ABCDEFGHIJKLMNOPQRSTUVWXYZ'' ''abcdefghijklmnopqrstuvwxyz'') c of
        None \<Rightarrow> c | Some l \<Rightarrow> l)"

text \<open>
  Modelled from the spec: \<open>metadata.id\<close>, which the scenario runner's \<open>init\<close> calls
  (core/metadata is not among the sources): "the canonical path, lower-cased when the
  platform is case-insensitive", "the path unchanged" otherwise (section 4.1).
\<close>

definition metadata_id :: "string \<Rightarrow> string \<Rightarrow> string" where
  "metadata_id plat p = (if case_insensitive plat then map lower_char p else p)"

text \<open>
  The extension of a path, as \<open>path.extname\<close> of Node has it: from the last dot of the last
  segment, unless that dot starts the segment.
\<close>

definition extname :: "string \<Rightarrow> string" where
  "extname p =
     (let b = basename ''posix'' p;
          e = rev (takeWhile (\<lambda>c. c \<noteq> CHR ''.'') (rev b))
      in if CHR ''.'' \<notin> set b \<or> Suc (length e) = length b \<or> b = ''..'' then []
         else CHR ''.'' # e)"

text \<open>
  Modelled from the spec: the conflict name (section 4.6: "Conflict naming appends
  \<open>-conflict-<ISO8601>\<close> before the extension"), with the time stamp as the argument
  \<open>ts\<close>; core/merge is not among the sources.
\<close>

definition conflict_path :: "string \<Rightarrow> string \<Rightarrow> string" where
  "conflict_path p ts =
     take (length p - length (extname p)) p @ ''-conflict-'' @ ts @ extname p"

text \<open>
  Modelled from the spec: the document the Merger creates for an addition (section 4.6:
  "local add, no doc: create doc, sides.local=1, sides.remote=0", and "symmetric" for a
  remote one).
\<close>

definition new_doc :: "string \<Rightarrow> side \<Rightarrow> string \<Rightarrow> docType \<Rightarrow> string option \<Rightarrow> doc" where
  "new_doc plat s p t md5 =
     \<lparr> doc_id = metadata_id plat p, doc_path = p, docType = t, ino = None, md5sum = md5,
       doc_rev = 1,
       sides_local = (if s = local_side then 1 else 0),
       sides_remote = (if s = remote_side then 1 else 0),
       moveFrom = None,
       deleted = False \<rparr>"

text \<open>An addition a watcher reports: a folder, or a file with its digest.\<close>

datatype add_event = add_dir string | add_file string string

fun event_path :: "add_event \<Rightarrow> string" where
  "event_path (add_dir p) = p"
| "event_path (add_file p md5) = p"

fun event_doc :: "string \<Rightarrow> side \<Rightarrow> string \<Rightarrow> add_event \<Rightarrow> doc" where
  "event_doc plat s p (add_dir _) = new_doc plat s p folder_doc None"
| "event_doc plat s p (add_file _ md5) = new_doc plat s p file_doc (Some md5)"

text \<open>
  Modelled from the spec: the Merger's add (section 4.6; core/merge is not among the
  sources). No live document of the id: the document is created. A document of the id with
  the same path and digest: nothing to write. Otherwise the paths fold to one id or the
  contents differ: the incoming item, which arrived second, is renamed to its conflict
  name on its own side and gets a document of its own (section 3, invariant 2; section
  4.6). The renames decided so far are applied to the path of an event first: within a
  batch the creation of a folder precedes those of its content (section 4.5), which by
  then lies below the renamed folder.
\<close>

definition merge_add ::
  "string \<Rightarrow> side \<Rightarrow> string \<Rightarrow> add_event
     \<Rightarrow> doc list \<times> (string \<times> string) list \<Rightarrow> doc list \<times> (string \<times> string) list" where
  "merge_add plat s ts ev acc =
     (case acc of (store, renames) \<Rightarrow>
        let p = fold (\<lambda>(old, new). rename_path old new) renames (event_path ev) in
        case find (\<lambda>d. doc_id d = metadata_id plat p \<and> \<not> deleted d) store of
          None \<Rightarrow> (put (event_doc plat s p ev) store, renames)
        | Some existing \<Rightarrow>
            if doc_path existing = p \<and> md5sum existing = md5sum (event_doc plat s p ev)
            then (store, renames)
            else let q = conflict_path p ts
                 in (put (event_doc plat s q ev) store, renames @ [(p, q)]))"

definition merge_adds ::
  "string \<Rightarrow> side \<Rightarrow> string \<Rightarrow> add_event list \<Rightarrow> doc list
     \<Rightarrow> doc list \<times> (string \<times> string) list" where
  "merge_adds plat s ts evs store = fold (merge_add plat s ts) evs (store, [])"

text \<open>
  Modelled from the spec: the Executor carrying out the renames on the side the additions
  came from (section 4.7, \<open>move\<close>).
\<close>

definition apply_renames :: "(string \<times> string) list \<Rightarrow> side_tree \<Rightarrow> side_tree" where
  "apply_renames renames t = fold (\<lambda>(old, new). rename_on old new) renames t"

text \<open>
  Scenario S5 of the spec (section 8), the short form of the disabled scenario
  case_and_encoding/identical_additions/complex_dirs/win_mac: the store knows the local
  \<open>JOHN/a.txt\<close>, the remote side adds \<open>john/b.txt\<close>.
\<close>

definition john_store :: "string \<Rightarrow> doc list" where
  "john_store plat =
     [ (synced ''JOHN'' folder_doc)\<lparr>doc_id := metadata_id plat ''JOHN''\<rparr>,
       (synced ''JOHN/a.txt'' file_doc)\<lparr>doc_id := metadata_id plat ''JOHN/a.txt''\<rparr> ]"

definition john_remote_tree :: side_tree where
  "john_remote_tree =
     [ (''JOHN'', None), (''JOHN/a.txt'', Some ''a''),
       (''john'', None), (''john/b.txt'', Some ''b'') ]"

definition john_events :: "add_event list" where
  "john_events = [add_dir ''john'', add_file ''john/b.txt'' ''b'']"

section \<open>Properties of the desktop shell\<close>

subsection \<open>What each function leaves alone\<close>

lemma updateState_keeps:
  "sent (updateState s f g) = sent g"
  "mainWindow (updateState s f g) = mainWindow g"
  "app_translations (updateState s f g) = app_translations g"
  "lastFiles (updateState s f g) = lastFiles g"
  "lastFilesFile (updateState s f g) = lastFilesFile g"
  "lastFilesWrites (updateState s f g) = lastFilesWrites g"
  "lastFilesRead (updateState s f g) = lastFilesRead g"
  "platform (updateState s f g) = platform g"
  "dirname (updateState s f g) = dirname g"
  by (simp_all add: updateState_def setTrayIcon_def Let_def split: prod.splits)

lemma translate_cong:
  "app_translations g = app_translations g' \<Longrightarrow> translate g key = translate g' key"
  by (simp add: translate_def)

lemma lastFiles_addFile:
  "lastFiles (addFile i now g) = slice_last 250 (lastFiles g @ [new_file i now g])"
  by (simp add: addFile_def Let_def persistLastFiles_def sendToMainWindow_def updateState_keeps new_file_def)

lemma lastFilesWrites_addFile:
  "lastFilesWrites (addFile i now g)
     = map (\<lambda>(data, raced). (data, True)) (lastFilesWrites g)
       @ [(lastFiles (addFile i now g), lastFilesWrites g \<noteq> [])]"
  by (simp add: addFile_def Let_def persistLastFiles_def sendToMainWindow_def updateState_keeps)

lemma addFile_keeps:
  "platform (addFile i now g) = platform g"
  "dirname (addFile i now g) = dirname g"
  "app_translations (addFile i now g) = app_translations g"
  "lastFilesFile (addFile i now g) = lastFilesFile g"
  by (simp_all add: addFile_def Let_def persistLastFiles_def sendToMainWindow_def updateState_keeps)

lemma lastFilesWrites_removeFile:
  "lastFilesWrites (removeFile i g)
     = map (\<lambda>(data, raced). (data, True)) (lastFilesWrites g)
       @ [(lastFiles (removeFile i g), lastFilesWrites g \<noteq> [])]"
  by (simp add: removeFile_def Let_def persistLastFiles_def sendToMainWindow_def)

lemma callback_alone:
  "lastFilesWrites g = [(data, False)] \<Longrightarrow>
     lastFilesFile (persistLastFiles_callback 0 False found g) = json data
     \<and> lastFilesWrites (persistLastFiles_callback 0 False found g) = []"
  by (simp add: persistLastFiles_callback_def)

lemma callback_raced:
  "lastFilesWrites g = (data, True) # ws \<Longrightarrow>
     lastFilesFile (persistLastFiles_callback 0 failed found g) = found
     \<and> lastFilesWrites (persistLastFiles_callback 0 failed found g) = ws"
  by (simp add: persistLastFiles_callback_def)

lemma callback_keeps:
  "platform (persistLastFiles_callback k failed found g) = platform g"
  "dirname (persistLastFiles_callback k failed found g) = dirname g"
  "app_translations (persistLastFiles_callback k failed found g) = app_translations g"
  "lastFiles (persistLastFiles_callback k failed found g) = lastFiles g"
  by (simp_all add: persistLastFiles_callback_def)

lemma transfers_sendTransfers:
  "mainWindow g \<Longrightarrow> transfers (sendTransfers fs g) = transfers g @ fs"
  by (induction fs arbitrary: g) (simp_all add: transfers_def sendToMainWindow_def)

lemma sent_synchronize_failed_revoked:
  "mainWindow g \<Longrightarrow> sent (synchronize_failed (Some ''Client has been revoked'') g) = sent g @ [(''revoked'', [])]"
  by (simp add: synchronize_failed_def Let_def sendErrorToMainWindow_def notify_def sendToMainWindow_def sendDiskUsage_def updateState_keeps)

lemma sent_synchronize_failed_full:
  "mainWindow g \<Longrightarrow> sent (synchronize_failed (Some ''Cozy is full'') g) =
     sent g @ [(''sync-error'', [Str (Some (translate g ''Error Cozy is full''))])]"
  by (simp add: synchronize_failed_def Let_def sendErrorToMainWindow_def notify_def sendToMainWindow_def sendDiskUsage_def updateState_keeps translate_def)

lemma started_simps:
  "mainWindow (started tr)" "sent (started tr) = []" "lastFiles (started tr) = []"
  "lastFilesWrites (started tr) = []" "app_translations (started tr) = tr"
  "state (started tr) = ''not-configured''" "platform (started tr) = ''linux''"
  by (simp_all add: started_def on_ready_def initial_def setTrayIcon_def Let_def)

lemma sorted_slice_last: "sorted xs \<Longrightarrow> sorted (slice_last n xs)"
  by (simp add: slice_last_def sorted_wrt_drop)

lemma length_slice_last: "length (slice_last n xs) \<le> n"
  by (simp add: slice_last_def)

lemma map_slice_last: "map f (slice_last n xs) = slice_last n (map f xs)"
  by (simp add: slice_last_def drop_map)

lemma restart_simps:
  "lastFiles (restart hidden g) = []"
  "lastFilesRead (restart hidden g)"
  "lastFilesFile (restart hidden g) = lastFilesFile g"
  "mainWindow (restart hidden g) = (\<not> hidden)"
  "sent (restart hidden g) = []"
  by (simp_all add: restart_def on_ready_def initial_def setTrayIcon_def Let_def loadLastFiles_def)

lemma loadLastFiles_callback_simps:
  "lastFilesRead g \<Longrightarrow> lastFilesFile g = json fs \<Longrightarrow> lastFiles (loadLastFiles_callback g) = fs"
  "mainWindow (loadLastFiles_callback g) = mainWindow g"
  "sent (loadLastFiles_callback g) = sent g"
  by (simp_all add: loadLastFiles_callback_def split: disk_file.splits)

lemma transfers_sendErrorToMainWindow:
  "transfers (sendErrorToMainWindow m g) = transfers g"
  by (simp add: sendErrorToMainWindow_def notify_def sendToMainWindow_def transfers_def Let_def)

lemma transfers_startSync:
  assumes "mainWindow g"
  shows "transfers (startSync force running url dev g) = transfers g @ lastFiles g"
proof -
  let ?g1 = "sendToMainWindow ''synchronization'' [Str url, Str dev] g"
  have a: "mainWindow ?g1" "lastFiles ?g1 = lastFiles g" "transfers ?g1 = transfers g"
    using assms by (simp_all add: sendToMainWindow_def transfers_def)
  have b: "transfers (sendTransfers (lastFiles ?g1) ?g1) = transfers g @ lastFiles g"
    using transfers_sendTransfers [OF a(1), of "lastFiles ?g1"] a by simp
  have c: "\<And>h. transfers (sendDiskUsage h) = transfers h"
    by (simp add: sendDiskUsage_def transfers_def)
  have d: "\<And>h s f. transfers (updateState s f h) = transfers h"
    by (simp add: transfers_def updateState_keeps)
  have e: "\<And>h ch. transfers (sendToMainWindow ch [] h) = transfers h"
    by (simp add: transfers_def sendToMainWindow_def)
  show ?thesis
    unfolding startSync_def Let_def
    by (simp add: b c d e transfers_sendErrorToMainWindow)
qed

text \<open>Without a window nothing is sent.\<close>

lemma sent_sendTransfers_hidden:
  "\<not> mainWindow g \<Longrightarrow> sendTransfers fs g = g"
  by (induction fs arbitrary: g) (simp_all add: sendToMainWindow_def)

lemma sent_startSync_hidden:
  assumes "\<not> mainWindow g"
  shows "sent (startSync force running url dev g) = sent g"
proof -
  have a: "\<And>ch args h. \<not> mainWindow h \<Longrightarrow> sendToMainWindow ch args h = h"
    by (simp add: sendToMainWindow_def)
  have b: "\<And>m h. \<not> mainWindow h \<Longrightarrow> sent (sendErrorToMainWindow m h) = sent h"
    by (simp add: sendErrorToMainWindow_def notify_def sendToMainWindow_def Let_def)
  have c: "\<And>h. sent (sendDiskUsage h) = sent h"
    by (simp add: sendDiskUsage_def)
  show ?thesis
    unfolding startSync_def Let_def
    using assms by (simp add: a b c sent_sendTransfers_hidden updateState_keeps)
qed

text \<open>
  The two writes of one \<open>transfer-move\<close> event run beside each other: what the file holds
  once both have called back is not decided by the list, and may be data that does not
  parse.
\<close>

lemma transfer_move_race:
  assumes "lastFilesWrites g = []"
  shows "lastFilesWrites (on_transfer_move i old now g)
           = [(lastFiles (addFile i now g), True),
              (lastFiles (on_transfer_move i old now g), True)]
       \<and> lastFilesFile (persistLastFiles_callback 0 False found
            (persistLastFiles_callback 0 False found' (on_transfer_move i old now g))) = found"
proof -
  have w: "lastFilesWrites (on_transfer_move i old now g)
           = [(lastFiles (addFile i now g), True),
              (lastFiles (on_transfer_move i old now g), True)]"
    using assms
    by (simp add: on_transfer_move_def lastFilesWrites_removeFile lastFilesWrites_addFile)
  from callback_raced [OF w, of False found']
  have "lastFilesWrites (persistLastFiles_callback 0 False found' (on_transfer_move i old now g))
      = [(lastFiles (on_transfer_move i old now g), True)]"
    by simp
  from callback_raced [OF this, of False found] w show ?thesis
    by simp
qed

subsection \<open>The tray state\<close>

text \<open>
  C9. Once the state is \<open>error\<close>, a call of \<open>updateState\<close> with the new state \<open>offline\<close>
  (whatever file name comes with it) returns at once: the state, the tray icon, the error
  message and the tray menu, like every other variable of the module, are what they were.
\<close>

theorem updateState_error_offline:
  assumes "state g = ''error''"
  shows "updateState ''offline'' fname g = g"
  using assms by (simp add: updateState_def)

text \<open>The state reached by \<open>updateState('error', 'boom')\<close> is such a state.\<close>

theorem updateState_error_offline_witness:
  "state (updateState ''error'' (Some ''boom'') (started Map.empty)) = ''error''
   \<and> updateState ''offline'' None (updateState ''error'' (Some ''boom'') (started Map.empty))
       = updateState ''error'' (Some ''boom'') (started Map.empty)"
proof -
  have h: "state (updateState ''error'' (Some ''boom'') (started Map.empty)) = ''error''"
    by (simp add: updateState_def setTrayIcon_def Let_def)
  from h updateState_error_offline [OF h, of None] show ?thesis by simp
qed

subsection \<open>The last-files list\<close>

text \<open>
  C4, as the code has it. After \<open>addFile\<close> has recorded an entry, the list holds at most 250
  entries: the old list with the new entry appended, cut to its last 250. Nothing sorts it, so
  the entries stand in the order they were recorded, oldest first, and their \<open>updated\<close> times
  ascend as long as the clock does not run backwards. \<open>addFile\<close> starts a write of that
  list; when no other write of the file is in flight beside it and it succeeds, the file
  holds that list once the write has called back. A process restarted over that file with a
  window sends the window, in \<open>startSync\<close>, one \<open>transfer\<close> message per entry of the file's
  list, in that order, when the read of the file has completed by then, and none when it
  has not; a process restarted without a window (\<open>--hidden\<close>) sends nothing.
\<close>

theorem addFile_lastFiles:
  "length (lastFiles (addFile i now g)) \<le> 250
   \<and> lastFiles (addFile i now g) = slice_last 250 (lastFiles g @ [new_file i now g])
   \<and> (sorted (map updated (lastFiles g)) \<and> (\<forall>f \<in> set (lastFiles g). updated f \<le> now) \<longrightarrow>
        sorted (map updated (lastFiles (addFile i now g))))
   \<and> (lastFilesWrites g = [] \<longrightarrow>
        lastFilesFile (persistLastFiles_callback 0 False found (addFile i now g))
          = json (lastFiles (addFile i now g))
      \<and> transfers (startSync force running url dev
           (loadLastFiles_callback
              (restart False (persistLastFiles_callback 0 False found (addFile i now g)))))
          = lastFiles (addFile i now g)
      \<and> transfers (startSync force running url dev
           (restart False (persistLastFiles_callback 0 False found (addFile i now g))))
          = []
      \<and> sent (startSync force running url dev
           (loadLastFiles_callback
              (restart True (persistLastFiles_callback 0 False found (addFile i now g)))))
          = [])"
proof -
  let ?w = "persistLastFiles_callback 0 False found (addFile i now g)"
  have 1: "length (lastFiles (addFile i now g)) \<le> 250"
    by (simp add: lastFiles_addFile length_slice_last)
  have 2: "sorted (map updated (lastFiles g)) \<and> (\<forall>f \<in> set (lastFiles g). updated f \<le> now) \<Longrightarrow>
        sorted (map updated (lastFiles (addFile i now g)))"
    by (simp add: lastFiles_addFile map_slice_last sorted_slice_last sorted_append new_file_def)
  have 3: "lastFilesFile ?w = json (lastFiles (addFile i now g))" if "lastFilesWrites g = []"
    using that callback_alone [of "addFile i now g" "lastFiles (addFile i now g)" found]
    by (simp add: lastFilesWrites_addFile)
  have 4: "transfers (startSync force running url dev (loadLastFiles_callback (restart False ?w)))
      = lastFiles (addFile i now g)" if "lastFilesWrites g = []"
  proof -
    have "lastFiles (loadLastFiles_callback (restart False ?w)) = lastFiles (addFile i now g)"
      using 3 [OF that] by (simp add: loadLastFiles_callback_simps restart_simps)
    moreover have "mainWindow (loadLastFiles_callback (restart False ?w))"
      by (simp add: loadLastFiles_callback_simps restart_simps)
    moreover have "transfers (loadLastFiles_callback (restart False ?w)) = []"
      by (simp add: transfers_def loadLastFiles_callback_simps restart_simps)
    ultimately show ?thesis
      by (simp add: transfers_startSync)
  qed
  have 5: "transfers (startSync force running url dev (restart False ?w)) = []"
  proof -
    have "mainWindow (restart False ?w)" "transfers (restart False ?w) = []"
      by (simp_all add: transfers_def restart_simps)
    then show ?thesis
      by (simp add: transfers_startSync restart_simps)
  qed
  have 6: "sent (startSync force running url dev (loadLastFiles_callback (restart True ?w))) = []"
  proof -
    have "\<not> mainWindow (loadLastFiles_callback (restart True ?w))"
      by (simp add: loadLastFiles_callback_simps restart_simps)
    then show ?thesis
      by (simp add: sent_startSync_hidden loadLastFiles_callback_simps restart_simps)
  qed
  from 1 2 3 4 5 6 show ?thesis
    using lastFiles_addFile by blast
qed

text \<open>
  C4 as stated, sorted by \<open>updated\<close> descending, fails on two events recorded at times 1 and 2:
  the list holds them as 1, 2.
\<close>

theorem last_files_descending_counterexample:
  "map updated (lastFiles (addFile (text_info ''parent/b'') 2
       (addFile (text_info ''parent/a'') 1 (started Map.empty)))) = [1, 2]
   \<and> \<not> sorted_wrt (\<ge>) [1, 2 :: int]"
  by (simp add: lastFiles_addFile slice_last_def new_file_def started_simps)

text \<open>
  Two events a tick apart, the write of the first one called back before the second: the
  hypotheses hold at the second event, and the restarted process sends the two entries.
\<close>

theorem addFile_lastFiles_witness:
  "lastFilesWrites (persistLastFiles_callback 0 False missing
       (addFile (text_info ''parent/a'') 1 (started Map.empty))) = []
   \<and> map updated (lastFiles (persistLastFiles_callback 0 False missing
       (addFile (text_info ''parent/a'') 1 (started Map.empty)))) = [1]
   \<and> map path (transfers (startSync False False None None
        (loadLastFiles_callback (restart False
           (persistLastFiles_callback 0 False missing
              (addFile (text_info ''parent/b'') 2
                 (persistLastFiles_callback 0 False missing
                    (addFile (text_info ''parent/a'') 1 (started Map.empty)))))))))
       = [''parent/a'', ''parent/b'']
   \<and> sorted (map updated (lastFiles (addFile (text_info ''parent/b'') 2
        (persistLastFiles_callback 0 False missing
           (addFile (text_info ''parent/a'') 1 (started Map.empty))))))"
proof -
  let ?g = "persistLastFiles_callback 0 False missing
       (addFile (text_info ''parent/a'') 1 (started Map.empty))"
  have w0: "lastFilesWrites (addFile (text_info ''parent/a'') 1 (started Map.empty))
      = [(lastFiles (addFile (text_info ''parent/a'') 1 (started Map.empty)), False)]"
    by (simp add: lastFilesWrites_addFile started_simps)
  have w: "lastFilesWrites ?g = []"
    using callback_alone [OF w0] by simp
  have l: "map updated (lastFiles ?g) = [1]" "map path (lastFiles ?g) = [''parent/a'']"
    by (simp_all add: callback_keeps lastFiles_addFile slice_last_def new_file_def
        started_simps text_info_def)
  have s: "sorted (map updated (lastFiles ?g))" using l by simp
  have b: "\<forall>f \<in> set (lastFiles ?g). updated f \<le> 2"
    by (simp add: callback_keeps lastFiles_addFile slice_last_def new_file_def started_simps)
  have lg: "lastFiles ?g = [new_file (text_info ''parent/a'') 1 (started Map.empty)]"
    by (simp add: callback_keeps lastFiles_addFile slice_last_def started_simps)
  have p: "map path (lastFiles (addFile (text_info ''parent/b'') 2 ?g))
        = [''parent/a'', ''parent/b'']"
  proof -
    have "lastFiles (addFile (text_info ''parent/b'') 2 ?g)
        = slice_last 250 ([new_file (text_info ''parent/a'') 1 (started Map.empty)]
            @ [new_file (text_info ''parent/b'') 2 ?g])"
      by (simp only: lastFiles_addFile lg)
    then show ?thesis
      by (simp add: slice_last_def new_file_def text_info_def)
  qed
  note t = addFile_lastFiles [of "text_info ''parent/b''" 2 ?g missing False False None None]
  from t w have t1: "transfers (startSync False False None None
        (loadLastFiles_callback (restart False
           (persistLastFiles_callback 0 False missing
              (addFile (text_info ''parent/b'') 2 ?g)))))
       = lastFiles (addFile (text_info ''parent/b'') 2 ?g)"
    by blast
  from t s b have t2: "sorted (map updated (lastFiles (addFile (text_info ''parent/b'') 2 ?g)))"
    by blast
  from t1 p have t3: "map path (transfers (startSync False False None None
        (loadLastFiles_callback (restart False
           (persistLastFiles_callback 0 False missing
              (addFile (text_info ''parent/b'') 2 ?g))))))
       = [''parent/a'', ''parent/b'']"
    by simp
  from w l(1) t3 t2 show ?thesis by blast
qed

subsection \<open>Errors that halt the synchronization\<close>

text \<open>
  C8, as the code has it. With a main window, a synchronization that fails with the message
  \<open>Client has been revoked\<close> sends the window \<open>revoked\<close>; one that fails with
  \<open>Cozy is full\<close> sends \<open>sync-error\<close> with the entry of the current locale for the
  key \<open>Error Cozy is full\<close>, or with \<open>Cozy is full\<close> when the locale has no entry
  for the key or an empty one.
\<close>

theorem synchronize_failed_messages:
  assumes "mainWindow g"
  shows "sent (synchronize_failed (Some ''Client has been revoked'') g)
           = sent g @ [(''revoked'', [])]
       \<and> sent (synchronize_failed (Some ''Cozy is full'') g)
           = sent g @ [(''sync-error'',
               [Str (Some (case app_translations g ''Error Cozy is full'' of
                             None \<Rightarrow> ''Cozy is full''
                           | Some t \<Rightarrow> if t = [] then ''Cozy is full'' else t))])]"
  using assms
  by (simp add: sent_synchronize_failed_revoked sent_synchronize_failed_full translate_def
      split: option.splits)

text \<open>
  C8 as stated fails under a locale that translates the key: the window receives the
  translation, not \<open>Cozy is full\<close>.
\<close>

theorem cozy_is_full_counterexample:
  "mainWindow (started french)
   \<and> sent (synchronize_failed (Some ''Cozy is full'') (started french))
       = [(''sync-error'', [Str (Some ''Votre Cozy est plein'')])]
   \<and> (''sync-error'', [Str (Some ''Cozy is full'')])
       \<notin> set (sent (synchronize_failed (Some ''Cozy is full'') (started french)))"
  by (simp add: sent_synchronize_failed_full started_simps translate_def french_def)

text \<open>Under the French locale of the example, and with a window, both messages.\<close>

theorem synchronize_failed_messages_witness:
  "mainWindow (started french)
   \<and> sent (synchronize_failed (Some ''Client has been revoked'') (started french))
       = [(''revoked'', [])]
   \<and> sent (synchronize_failed (Some ''Cozy is full'') (started french))
       = [(''sync-error'', [Str (Some ''Votre Cozy est plein'')])]"
proof -
  have h: "mainWindow (started french)"
    by (simp add: started_simps)
  from synchronize_failed_messages [OF h] h show ?thesis
    by (simp add: started_simps french_def)
qed

section \<open>Properties of Node's path functions\<close>

subsection \<open>Segments\<close>





subsection \<open>normalizeString\<close>










subsection \<open>join on a POSIX platform\<close>


subsection \<open>join on win32\<close>






subsection \<open>join on either platform\<close>



section \<open>Properties of ContextDir.tree\<close>

subsection \<open>The loop lists what the depth-first listing lists\<close>




subsection \<open>The helper's paths are the relative paths\<close>

lemma posixifyPath_append:
  "posixifyPath sep (a @ b) = posixifyPath sep a @ posixifyPath sep b"
  by (simp add: posixifyPath_def)


lemma posixifyPath_sep: "posixifyPath sep [sep] = ''/''"
  by (simp add: posixifyPath_def)




subsection \<open>No path is listed twice\<close>









subsection \<open>The sort\<close>









text \<open>
  Roots the helper is not written for. From a root that ends in the separator, from the
  root \<open>.\<close> and from a root that is not normalized, the paths returned for a file \<open>a\<close>
  and a directory \<open>bb\<close> with a file \<open>c\<close> are not their relative paths.
\<close>

lemma other_roots:
  "tree ''linux'' byte_compare ''.tmp'' ''.'' (Dir small_entries) = Inr [[], ''/'', ''/c'']"
  "tree ''linux'' byte_compare ''.tmp'' ''./root'' (Dir small_entries) = Inr [[], ''/'', ''/c'']"
  "tree ''linux'' byte_compare ''.tmp'' ''/tmp//root'' (Dir small_entries)
     = Inr [[], ''b/'', ''b/c'']"
proof -
  have j: "path_join ''linux'' ''.'' ''a'' = ''a''" "path_join ''linux'' ''.'' ''bb'' = ''bb''"
    "path_join ''linux'' ''bb'' ''c'' = ''bb/c''"
    "path_join ''linux'' ''./root'' ''a'' = ''root/a''"
    "path_join ''linux'' ''./root'' ''bb'' = ''root/bb''"
    "path_join ''linux'' ''root/bb'' ''c'' = ''root/bb/c''"
    "path_join ''linux'' ''/tmp//root'' ''a'' = ''/tmp/root/a''"
    "path_join ''linux'' ''/tmp//root'' ''bb'' = ''/tmp/root/bb''"
    "path_join ''linux'' ''/tmp/root/bb'' ''c'' = ''/tmp/root/bb/c''"
    by (simp_all add: path_join_def join_posix_def normalize_posix_def normalizeString_def
        is_sep_def Let_def)
  show "tree ''linux'' byte_compare ''.tmp'' ''.'' (Dir small_entries) = Inr [[], ''/'', ''/c'']"
    "tree ''linux'' byte_compare ''.tmp'' ''./root'' (Dir small_entries) = Inr [[], ''/'', ''/c'']"
    "tree ''linux'' byte_compare ''.tmp'' ''/tmp//root'' (Dir small_entries)
       = Inr [[], ''b/'', ''b/c'']"
    by (simp_all add: tree_def small_entries_def j relpath_def posixifyPath_def path_sep_def
        isDirectory_def sort_by_def byte_compare_def less_char_def)
qed

subsection \<open>The result of tree\<close>




section \<open>Properties of the Merger's trash\<close>

subsection \<open>The store\<close>

lemma find_put:
  "find (\<lambda>x. doc_id x = i) (put d s)
     = (if doc_id d = i then Some d else find (\<lambda>x. doc_id x = i) s)"
  by (induction s) auto

lemma db_get_put:
  "db_get i (put d s) = (if doc_id d = i then Inr d else db_get i s)"
  by (simp add: db_get_def find_put)

lemma mark_deleted_simps:
  "deleted (mark_deleted s d)" "doc_id (mark_deleted s d) = doc_id d"
  "doc_path (mark_deleted s d) = doc_path d" "docType (mark_deleted s d) = docType d"
  by (cases s; simp add: mark_deleted_def bump_def)+













subsection \<open>Paths below a folder\<close>

lemma is_under_longer: "is_under a b \<Longrightarrow> length a < length b"
proof -
  assume "is_under a b"
  then have "take (length (a @ ''/'')) b = a @ ''/''" by (simp add: is_under_def starts_with_def)
  then have "length (a @ ''/'') \<le> length b" by (metis length_take min.cobounded1)
  then show ?thesis by simp
qed

lemma is_under_less: "is_under a b \<Longrightarrow> a < b"
proof -
  assume "is_under a b"
  then have "take (length (a @ ''/'')) b = a @ ''/''" by (simp add: is_under_def starts_with_def)
  then have "b = a @ (CHR ''/'' # drop (Suc (length a)) b)"
    by (metis append.assoc append_Cons append_Nil append_take_drop_id length_append_singleton)
  then obtain r where "b = a @ CHR ''/'' # r" by blast
  then show ?thesis by (simp add: list_less_def lexord_append_rightI)
qed

lemma is_under_irrefl: "\<not> is_under a a"
  using is_under_longer [of a a] by auto

lemma is_under_asym: "is_under a b \<Longrightarrow> \<not> is_under b a"
  using is_under_longer [of a b] is_under_longer [of b a] by auto

lemma sorted_wrt_rev_conv: "sorted_wrt R (rev xs) = sorted_wrt (\<lambda>a b. R b a) xs"
  by (induction xs) (auto simp: sorted_wrt_append)

lemma children_first:
  assumes "sorted (map doc_path store)"
  shows "sorted_wrt (\<lambda>a b. \<not> is_under (doc_path a) (doc_path b))
           (rev (tree_under p store)
            @ filter (\<lambda>d. doc_path d = p \<and> docType d = folder_doc \<and> \<not> deleted d) store)"
proof -
  let ?F = "tree_under p store"
  let ?G = "filter (\<lambda>d. doc_path d = p \<and> docType d = folder_doc \<and> \<not> deleted d) store"
  have "sorted (map doc_path ?F)"
    using assms by (simp add: tree_under_def sorted_filter)
  then have "sorted_wrt (\<lambda>a b. doc_path a \<le> doc_path b) ?F"
    by (simp add: sorted_map)
  then have "sorted_wrt (\<lambda>a b. \<not> is_under (doc_path b) (doc_path a)) ?F"
    by (rule sorted_wrt_mono_rel [rotated]) (use is_under_less in fastforce)
  then have f: "sorted_wrt (\<lambda>a b. \<not> is_under (doc_path a) (doc_path b)) (rev ?F)"
    by (simp add: sorted_wrt_rev_conv)
  have g: "sorted_wrt (\<lambda>a b. \<not> is_under (doc_path a) (doc_path b)) ?G"
    by (rule sorted_wrt_mono_rel [of _ "\<lambda>a b. True"]) (auto simp: is_under_irrefl)
  have "\<forall>a \<in> set (rev ?F). \<forall>b \<in> set ?G. \<not> is_under (doc_path a) (doc_path b)"
    by (auto simp: tree_under_def dest: is_under_asym)
  with f g show ?thesis by (simp add: sorted_wrt_append)
qed

subsection \<open>Trashing a folder\<close>


lemma trashFolder_children_first:
  assumes "sorted (map doc_path store)"
  shows "sorted_wrt (\<lambda>a b. \<not> is_under (doc_path a) (doc_path b)) (trashFolder s p store)"
  using children_first [OF assms, of p]
  unfolding trashFolder_def by (simp only: sorted_wrt_map mark_deleted_simps)




subsection \<open>Tombstones\<close>








section \<open>Properties of the Executor's trash\<close>





lemma starts_with_trans: "starts_with a b \<Longrightarrow> starts_with b c \<Longrightarrow> starts_with a c"
  by (metis append_eq_conv_conj append.assoc append_take_drop_id starts_with_def)






section \<open>Properties of the Executor's ordering\<close>

lemma depth_under: "is_under p q \<Longrightarrow> depth p < depth q"
proof -
  assume "is_under p q"
  then have "take (length (p @ ''/'')) q = p @ ''/''" by (simp add: is_under_def starts_with_def)
  then have "q = (p @ ''/'') @ drop (length (p @ ''/'')) q"
    by (metis append_take_drop_id)
  then obtain r where "q = p @ ''/'' @ r" by (metis append.assoc)
  then show ?thesis by (simp add: depth_def)
qed

lemma stable_within_key:
  "sorted (map g (filter (\<lambda>x. f x = k) (sort_key f (sort_key g xs))))"
  by (simp add: sort_key_stable sorted_filter)

text \<open>The order in which trash.js expects the three deletions of its directory.\<close>

lemma trash_directory_deletes_order:
  "map op_path (ordered_deletes trash_directory_deletes)
     = [''parent/dir/subdir'', ''parent/dir/empty-subdir'', ''parent/dir'']"
  by (simp add: ordered_deletes_def trash_directory_deletes_def depth_def)

text \<open>
  C7. For every batch of pending operations, each delete and each create or move is
  applied once; the deletes go by descending depth, so that no delete comes after a delete
  of something it lies above (children before parents); the creates and moves go by
  ascending depth, so that none comes before one of something it lies below (parents before
  children); and the operations of one depth go in the order of their sequence numbers.
\<close>

theorem batch_order:
  "mset (ordered_deletes batch) = mset (filter (\<lambda>x. op_kind x = delete_op) batch)
   \<and> mset (ordered_creates_moves batch) = mset (filter (\<lambda>x. op_kind x \<noteq> delete_op) batch)
   \<and> sorted_wrt (\<lambda>a b. depth (op_path a) \<ge> depth (op_path b)) (ordered_deletes batch)
   \<and> sorted_wrt (\<lambda>a b. depth (op_path a) \<le> depth (op_path b)) (ordered_creates_moves batch)
   \<and> sorted_wrt (\<lambda>a b. \<not> is_under (op_path a) (op_path b)) (ordered_deletes batch)
   \<and> sorted_wrt (\<lambda>a b. \<not> is_under (op_path b) (op_path a)) (ordered_creates_moves batch)
   \<and> (\<forall>k. sorted (map op_seq (filter (\<lambda>x. depth (op_path x) = k) (ordered_deletes batch))))
   \<and> (\<forall>k. sorted (map op_seq
              (filter (\<lambda>x. depth (op_path x) = k) (ordered_creates_moves batch))))"
proof -
  have 1: "mset (ordered_deletes batch) = mset (filter (\<lambda>x. op_kind x = delete_op) batch)"
    and 2: "mset (ordered_creates_moves batch)
              = mset (filter (\<lambda>x. op_kind x \<noteq> delete_op) batch)"
    by (simp_all add: ordered_deletes_def ordered_creates_moves_def)
  have "sorted (map (\<lambda>x. - int (depth (op_path x))) (ordered_deletes batch))"
    by (simp add: ordered_deletes_def)
  then have 3: "sorted_wrt (\<lambda>a b. depth (op_path a) \<ge> depth (op_path b)) (ordered_deletes batch)"
    by (simp add: sorted_map)
  have "sorted (map (\<lambda>x. depth (op_path x)) (ordered_creates_moves batch))"
    by (simp add: ordered_creates_moves_def)
  then have 4: "sorted_wrt (\<lambda>a b. depth (op_path a) \<le> depth (op_path b))
      (ordered_creates_moves batch)"
    by (simp add: sorted_map)
  have 5: "sorted_wrt (\<lambda>a b. \<not> is_under (op_path a) (op_path b)) (ordered_deletes batch)"
    by (rule sorted_wrt_mono_rel [OF _ 3]) (use depth_under in fastforce)
  have 6: "sorted_wrt (\<lambda>a b. \<not> is_under (op_path b) (op_path a)) (ordered_creates_moves batch)"
    by (rule sorted_wrt_mono_rel [OF _ 4]) (use depth_under in fastforce)
  have 7: "sorted (map op_seq (filter (\<lambda>x. depth (op_path x) = k) (ordered_deletes batch)))"
    for k
  proof -
    have e: "(\<lambda>x. depth (op_path x) = k) = (\<lambda>x. - int (depth (op_path x)) = - int k)"
      by auto
    show ?thesis
      unfolding ordered_deletes_def e by (rule stable_within_key)
  qed
  have 8: "sorted (map op_seq
      (filter (\<lambda>x. depth (op_path x) = k) (ordered_creates_moves batch)))" for k
    unfolding ordered_creates_moves_def by (rule stable_within_key)
  from 1 2 3 4 5 6 7 8 show ?thesis by blast
qed

section \<open>Properties of the conflict names and of the Merger's add\<close>

lemma not_append_less: "\<not> (xs @ ys) < (xs :: string)"
  by (induction xs) simp_all

lemma takeWhile_through:
  "\<forall>x \<in> set xs. P x \<Longrightarrow> takeWhile P (xs @ ys) = xs @ takeWhile P ys"
  by (induction xs) auto

lemma conflict_path_no_extension:
  "CHR ''.'' \<notin> set (basename ''posix'' p) \<Longrightarrow> conflict_path p ts = p @ ''-conflict-'' @ ts"
  by (simp add: conflict_path_def extname_def Let_def)

lemma basename_extension:
  assumes "e \<noteq> []" "CHR ''/'' \<notin> set e"
  shows "basename ''posix'' (b @ ''.'' @ e)
       = rev (takeWhile (\<lambda>c. c \<noteq> CHR ''/'') (rev b)) @ ''.'' @ e"
proof -
  have "last e \<noteq> CHR ''/''"
    using assms by (metis last_in_set)
  then have h: "\<not> is_sep ''posix'' (hd (rev e))" "rev e \<noteq> []"
    using assms(1) by (simp_all add: is_sep_def hd_rev)
  have d: "dropWhile (is_sep ''posix'') (rev e @ CHR ''.'' # rev b) = rev e @ CHR ''.'' # rev b"
    using h by (cases "rev e") simp_all
  have t: "takeWhile (\<lambda>c. \<not> is_sep ''posix'' c) (rev e @ CHR ''.'' # rev b)
      = rev e @ CHR ''.'' # takeWhile (\<lambda>c. c \<noteq> CHR ''/'') (rev b)"
  proof -
    have "\<forall>x \<in> set (rev e). \<not> is_sep ''posix'' x"
      using assms(2) by (auto simp: is_sep_def)
    then show ?thesis
      by (simp add: takeWhile_through is_sep_def)
  qed
  have c: "(case b @ ''.'' @ e of
              d # c # r \<Rightarrow> if ''posix'' = ''win32'' \<and> is_drive_letter d \<and> c = CHR '':'' then r
                          else b @ ''.'' @ e
            | _ \<Rightarrow> b @ ''.'' @ e) = b @ ''.'' @ e"
    by (simp split: list.splits)
  show ?thesis
    unfolding basename_def Let_def c by (simp add: d t)
qed

lemma conflict_path_extension:
  assumes "e \<noteq> []" "CHR ''/'' \<notin> set e" "CHR ''.'' \<notin> set e" "b \<noteq> []" "last b \<noteq> CHR ''/''"
  shows "conflict_path (b @ ''.'' @ e) ts = b @ ''-conflict-'' @ ts @ ''.'' @ e"
proof -
  let ?n = "rev (takeWhile (\<lambda>c. c \<noteq> CHR ''/'') (rev b))"
  have n: "?n \<noteq> []"
    using assms(4,5) by (cases "rev b") (simp_all add: last_rev [symmetric])
  have b: "basename ''posix'' (b @ ''.'' @ e) = ?n @ ''.'' @ e"
    by (rule basename_extension [OF assms(1,2)])
  have t: "takeWhile (\<lambda>c. c \<noteq> CHR ''.'') (rev (?n @ ''.'' @ e)) = rev e"
    using assms(3) by (auto simp: takeWhile_tail takeWhile_eq_all_conv)
  have "?n @ ''.'' @ e \<noteq> ''..''"
    using assms(1,3) n by (cases e rule: rev_cases) auto
  then have "extname (b @ ''.'' @ e) = ''.'' @ e"
    using n unfolding extname_def b Let_def t by simp
  then show ?thesis by (simp add: conflict_path_def)
qed

text \<open>On a platform that tells the two names apart nothing is renamed.\<close>

lemma case_sensitive_no_conflict:
  "map doc_path (fst (merge_adds ''linux'' remote_side ts john_events (john_store ''linux'')))
     = [''JOHN'', ''JOHN/a.txt'', ''john'', ''john/b.txt'']"
  by (simp add: merge_adds_def merge_add_def john_events_def john_store_def metadata_id_def
      case_insensitive_def synced_def new_doc_def less_char_def Let_def)

text \<open>
  C6. On a platform that folds case, with the local \<open>JOHN/a.txt\<close> known to the store and
  \<open>john/b.txt\<close> added remotely, whatever the time stamp: the store keeps the documents
  of \<open>JOHN\<close> and \<open>JOHN/a.txt\<close> and gains those of \<open>john-conflict-<ts>\<close> and
  \<open>john-conflict-<ts>/b.txt\<close>, no two of one id; one rename is decided, of the remote
  \<open>john\<close> to its conflict name, after which the remote tree holds \<open>JOHN/\<close> with
  \<open>a.txt\<close> and the one sibling \<open>john-conflict-<ts>/\<close> with \<open>b.txt\<close>. The suffix goes
  at the end of a name without extension and before the extension of \<open>a.txt\<close>.
\<close>

theorem case_conflict:
  assumes "case_insensitive plat"
  shows "map doc_path (fst (merge_adds plat remote_side ts john_events (john_store plat)))
           = [''JOHN'', ''john-conflict-'' @ ts, ''john-conflict-'' @ ts @ ''/b.txt'',
              ''JOHN/a.txt'']
       \<and> snd (merge_adds plat remote_side ts john_events (john_store plat))
           = [(''john'', ''john-conflict-'' @ ts)]
       \<and> map fst (apply_renames
             (snd (merge_adds plat remote_side ts john_events (john_store plat)))
             john_remote_tree)
           = [''JOHN'', ''JOHN/a.txt'', ''john-conflict-'' @ ts,
              ''john-conflict-'' @ ts @ ''/b.txt'']
       \<and> distinct (map doc_id (fst (merge_adds plat remote_side ts john_events (john_store plat))))
       \<and> conflict_path ''john'' ts = ''john-conflict-'' @ ts
       \<and> conflict_path ''JOHN/a.txt'' ts = ''JOHN/a-conflict-'' @ ts @ ''.txt''"
proof -
  have x: "conflict_path ''JOHN/a.txt'' ts = ''JOHN/a-conflict-'' @ ts @ ''.txt''"
    using conflict_path_extension [of "''txt''" "''JOHN/a''" ts] by simp
  have c: "conflict_path ''john'' ts = ''john-conflict-'' @ ts"
    by (simp add: conflict_path_def extname_def basename_def is_sep_def)
  have c2: "conflict_path (''john-conflict-'' @ ts @ ''/b.txt'') ts' \<noteq> []" for ts'
    by (simp add: conflict_path_def)
  have m: "merge_adds plat remote_side ts john_events (john_store plat)
     = ([ (synced ''JOHN'' folder_doc)\<lparr>doc_id := ''john''\<rparr>,
          new_doc plat remote_side (''john-conflict-'' @ ts) folder_doc None,
          new_doc plat remote_side (''john-conflict-'' @ ts @ ''/b.txt'') file_doc (Some ''b''),
          (synced ''JOHN/a.txt'' file_doc)\<lparr>doc_id := ''john/a.txt''\<rparr> ],
        [(''john'', ''john-conflict-'' @ ts)])"
    using assms
    by (simp add: merge_adds_def merge_add_def john_events_def john_store_def metadata_id_def
        lower_char_def synced_def new_doc_def c rename_path_def is_under_def starts_with_def
        not_append_less less_char_def Let_def)
  show ?thesis
    using assms
    by (simp add: m c x new_doc_def synced_def metadata_id_def lower_char_def apply_renames_def
        rename_on_def rename_path_def john_remote_tree_def is_under_def starts_with_def)
qed

text \<open>macOS folds case.\<close>

theorem case_conflict_witness:
  "case_insensitive ''darwin''
   \<and> map doc_path (fst (merge_adds ''darwin'' remote_side ''2018-05-14T10:20:30.000Z''
        john_events (john_store ''darwin'')))
     = [''JOHN'', ''john-conflict-2018-05-14T10:20:30.000Z'',
        ''john-conflict-2018-05-14T10:20:30.000Z/b.txt'', ''JOHN/a.txt'']"
proof -
  have h: "case_insensitive ''darwin''" by (simp add: case_insensitive_def)
  from case_conflict [OF h, of "''2018-05-14T10:20:30.000Z''"] h show ?thesis by simp
qed

end
